theory Spec2Isabelle
  imports Main "HOL-Library.Multiset"
begin

section \<open>The users table\<close>

text \<open>
  The server keeps its whole state in one PostgreSQL table, created by the statement at
  the top of \<^verbatim>\<open>server/index.js\<close>:
  \<^verbatim>\<open>
  CREATE TABLE IF NOT EXISTS users (
    id SERIAL PRIMARY KEY,
    name VARCHAR(255) NOT NULL,
    email VARCHAR(255) UNIQUE NOT NULL,
    password VARCHAR(255) NOT NULL,
    status VARCHAR(50) DEFAULT 'active',
    last_login TIMESTAMP DEFAULT NULL
  )
  \<close>
  A row is a record with one field per column. Timestamps are seconds on the clock that
  \<^verbatim>\<open>NOW()\<close> reads; \<open>None\<close> is SQL \<^verbatim>\<open>NULL\<close>.
\<close>

record user =
  user_id :: int
  user_name :: string
  user_email :: string
  user_password :: string
  user_status :: string
  user_last_login :: "nat option"

text \<open>
  The table is the list of its rows in insertion order, together with the sequence that
  \<^verbatim>\<open>SERIAL\<close> attaches to the \<^verbatim>\<open>id\<close> column: \<open>users_id_seq\<close> is the
  value the next \<^verbatim>\<open>INSERT\<close> draws. The sequence only counts upwards; its upper end
  (2147483647 for \<^verbatim>\<open>SERIAL\<close>, where an \<^verbatim>\<open>INSERT\<close> fails) is not modelled.
\<close>

record store =
  users :: "user list"
  users_id_seq :: int

section \<open>Libraries the handlers call\<close>

text \<open>
  A value of the request body after \<^verbatim>\<open>express.json()\<close> has parsed it. A JavaScript
  number is \<open>JNum\<close> when it is an integer and \<open>JFrac\<close> otherwise.
\<close>

datatype json =
    JNull
  | JBool bool
  | JNum int
  | JFrac
  | JStr string
  | JArr "json list"
  | JObj "(string \<times> json) list"

text \<open>
  What reaches a statement for a parameter that stands in \<^verbatim>\<open>id = ANY($n)\<close>, which
  PostgreSQL types \<^verbatim>\<open>integer[]\<close>: nothing it can read (the statement fails),
  \<^verbatim>\<open>NULL\<close>, or an array of integers and \<^verbatim>\<open>NULL\<close>s.
\<close>

datatype pg_param = PgError | PgNull | PgArray "int option list"

text \<open>
  \<^verbatim>\<open>jsonwebtoken\<close> and \<^verbatim>\<open>bcryptjs\<close> are not part of the repository. They are
  parameters of the model: \<open>jwt_sign uid now\<close> is
  \<^verbatim>\<open>jwt.sign({ id: uid }, JWT_SECRET, { expiresIn: '1h' })\<close> evaluated at time \<open>now\<close>,
  \<open>jwt_verify tok now\<close> is \<^verbatim>\<open>jwt.verify(tok, JWT_SECRET)\<close> at time \<open>now\<close>, giving
  the \<^verbatim>\<open>id\<close> of the decoded payload or \<open>None\<close> where the library throws;
  \<open>bcrypt_hash pw salt\<close> is \<^verbatim>\<open>bcrypt.hash(pw, 10)\<close> with the salt it draws, and
  \<open>bcrypt_compare pw h\<close> is \<^verbatim>\<open>bcrypt.compare(pw, h)\<close>.

  Two readings of PostgreSQL are parameters as well: \<open>pg_int4in s\<close> is what its
  \<^verbatim>\<open>integer\<close> input makes of the text \<open>s\<close> of an array element (\<open>None\<close> where it
  raises an error), and \<open>pg_integer_array v\<close> is what it makes of a parameter that
  node-postgres does not send as a flat array literal: a string, an object, or an array
  that holds arrays.
\<close>

record env =
  jwt_sign :: "int \<Rightarrow> nat \<Rightarrow> string"
  jwt_verify :: "string \<Rightarrow> nat \<Rightarrow> int option"
  bcrypt_hash :: "string \<Rightarrow> string \<Rightarrow> string"
  bcrypt_compare :: "string \<Rightarrow> string \<Rightarrow> bool"
  pg_int4in :: "string \<Rightarrow> int option"
  pg_integer_array :: "json \<Rightarrow> pg_param"

text \<open>The lifetime of a token, \<^verbatim>\<open>expiresIn: '1h'\<close>, in seconds.\<close>

definition token_ttl :: nat where
  "token_ttl = 3600"

text \<open>PostgreSQL refuses a text value that holds the character with code 0.\<close>

definition nul_free :: "string \<Rightarrow> bool" where
  "nul_free s \<longleftrightarrow> CHR 0x00 \<notin> set s"



section \<open>Requests and responses\<close>

text \<open>
  A request carries the \<^verbatim>\<open>Authorization\<close> header and the fields of the JSON body
  that the handlers destructure. \<open>None\<close> is JavaScript's \<^verbatim>\<open>undefined\<close>: the header
  or the field is absent. \<^verbatim>\<open>name\<close>, \<^verbatim>\<open>email\<close> and \<^verbatim>\<open>password\<close> are strings;
  \<^verbatim>\<open>userIds\<close> is any JSON value.
\<close>

record request =
  authorization :: "string option"
  body_name :: "string option"
  body_email :: "string option"
  body_password :: "string option"
  body_userIds :: "json option"

text \<open>The projections that leave the server: neither has a field for the password hash.\<close>

record public_user =
  pub_id :: int
  pub_name :: string
  pub_email :: string
  pub_status :: string

record listed_user =
  row_id :: int
  row_name :: string
  row_email :: string
  row_status :: string
  row_last_login :: "nat option"

datatype payload =
    Error string
  | Message string
  | Login string public_user
  | Users "listed_user list"

datatype response = Response (code: nat) (payload: payload)

section \<open>JavaScript helpers\<close>

text \<open>\<^verbatim>\<open>s.split(c)\<close> for a one-character separator: the pieces between the separators.\<close>

fun split :: "char \<Rightarrow> string \<Rightarrow> string list" where
  "split c [] = [[]]"
| "split c (x # xs) =
     (if x = c then [] # split c xs
      else (case split c xs of [] \<Rightarrow> [[x]] | p # ps \<Rightarrow> (x # p) # ps))"

text \<open>\<^verbatim>\<open>xs[i]\<close>: \<^verbatim>\<open>undefined\<close> out of range.\<close>

definition at_index :: "'a list \<Rightarrow> nat \<Rightarrow> 'a option" where
  "at_index xs i = (if i < length xs then Some (xs ! i) else None)"

text \<open>
  The text of an integer, as \<^verbatim>\<open>String(n)\<close> gives it for the id of a row.
\<close>

fun digits :: "nat \<Rightarrow> string" where
  "digits n = (if n < 10 then [''0123456789'' ! n] else digits (n div 10) @ [''0123456789'' ! (n mod 10)])"

definition number_text :: "int \<Rightarrow> string" where
  "number_text n = (if n < 0 then CHR ''-'' # digits (nat (- n)) else digits (nat n))"

text \<open>\<^verbatim>\<open>s.includes(t)\<close> on strings: \<open>t\<close> occurs in \<open>s\<close>.\<close>

fun string_includes :: "string \<Rightarrow> string \<Rightarrow> bool" where
  "string_includes [] t = (t = [])"
| "string_includes (c # cs) t = (take (length t) (c # cs) = t \<or> string_includes cs t)"

text \<open>
  \<^verbatim>\<open>userIds.includes(id)\<close> for the numeric \<open>id\<close> of a row. On an array it compares the
  elements with the number strictly, so only an element that is that number counts; on
  a string it looks for the text of the number; on \<^verbatim>\<open>null\<close> and on values with no
  \<^verbatim>\<open>includes\<close> method it throws a TypeError (\<open>None\<close>).
\<close>

fun js_includes :: "json \<Rightarrow> int \<Rightarrow> bool option" where
  "js_includes (JArr xs) i = Some (JNum i \<in> set xs)"
| "js_includes (JStr s) i = Some (string_includes s (number_text i))"
| "js_includes v i = None"

section \<open>The queries\<close>

text \<open>
  The database is taken to be reachable: a query fails only for the reasons PostgreSQL
  gives for the statement itself (a parameter it cannot read, a constraint of the table).

  \<^verbatim>\<open>SELECT * FROM users WHERE id = $1\<close>
\<close>

definition select_by_id :: "store \<Rightarrow> int \<Rightarrow> user list" where
  "select_by_id st i = filter (\<lambda>u. user_id u = i) (users st)"

text \<open>
  The values of the column \<^verbatim>\<open>id\<close>: PostgreSQL's \<^verbatim>\<open>integer\<close>, 32 bits.
\<close>

definition int4 :: "int \<Rightarrow> bool" where
  "int4 n \<longleftrightarrow> - 2147483648 \<le> n \<and> n \<le> 2147483647"

text \<open>
  An element of a JavaScript array as an element of an \<^verbatim>\<open>integer[]\<close>. node-postgres
  writes \<^verbatim>\<open>null\<close> as \<^verbatim>\<open>NULL\<close> and every other element that is not an array as a quoted
  text: a number as its digits, a string as it is, a boolean as \<^verbatim>\<open>true\<close> or
  \<^verbatim>\<open>false\<close>, an object as its JSON text. PostgreSQL reads the text as an integer: a
  number that is an integer of 32 bits is that integer, any other number, a boolean and
  an object are errors, and so is a text that holds the character with code 0. \<open>None\<close>
  is the error, \<open>Some None\<close> is \<^verbatim>\<open>NULL\<close>.
\<close>

fun element_int4 :: "env \<Rightarrow> json \<Rightarrow> int option option" where
  "element_int4 E JNull = Some None"
| "element_int4 E (JNum n) = (if int4 n then Some (Some n) else None)"
| "element_int4 E (JStr s) =
     (if nul_free s then (case pg_int4in E s of None \<Rightarrow> None | Some n \<Rightarrow> Some (Some n)) else None)"
| "element_int4 E v = None"

text \<open>An array none of whose elements is an array: one error fails the whole array.\<close>

definition flat_int4_array :: "env \<Rightarrow> json list \<Rightarrow> int option list option" where
  "flat_int4_array E xs = those (map (element_int4 E) xs)"

fun is_array :: "json \<Rightarrow> bool" where
  "is_array (JArr xs) = True"
| "is_array v = False"

text \<open>
  The parameter \<^verbatim>\<open>userIds\<close> of \<^verbatim>\<open>id = ANY($n)\<close>. \<^verbatim>\<open>undefined\<close> and \<^verbatim>\<open>null\<close>
  are sent as \<^verbatim>\<open>NULL\<close>; a number or a boolean is sent as its text, which is no array
  literal; a flat array is read element by element; a string, an object and an array that
  holds arrays are left to \<open>pg_integer_array\<close>.
\<close>

definition int4_array_param :: "env \<Rightarrow> json option \<Rightarrow> pg_param" where
  "int4_array_param E v =
     (case v of
        None \<Rightarrow> PgNull
      | Some JNull \<Rightarrow> PgNull
      | Some (JBool b) \<Rightarrow> PgError
      | Some (JNum n) \<Rightarrow> PgError
      | Some JFrac \<Rightarrow> PgError
      | Some (JStr s) \<Rightarrow> pg_integer_array E (JStr s)
      | Some (JObj kvs) \<Rightarrow> pg_integer_array E (JObj kvs)
      | Some (JArr xs) \<Rightarrow>
          if list_ex is_array xs then pg_integer_array E (JArr xs)
          else (case flat_int4_array E xs of None \<Rightarrow> PgError | Some a \<Rightarrow> PgArray a))"

text \<open>
  The ids that \<^verbatim>\<open>id = ANY($n)\<close> holds of: none for \<^verbatim>\<open>NULL\<close>, the elements other
  than \<^verbatim>\<open>NULL\<close> for an array. \<open>None\<close>: the statement fails and changes nothing.
\<close>

definition array_ids :: "int option list \<Rightarrow> int list" where
  "array_ids a = List.map_filter (\<lambda>x. x) a"

definition target_ids :: "env \<Rightarrow> json option \<Rightarrow> int list option" where
  "target_ids E v =
     (case int4_array_param E v of
        PgError \<Rightarrow> None
      | PgNull \<Rightarrow> Some []
      | PgArray a \<Rightarrow> Some (array_ids a))"

text \<open>\<^verbatim>\<open>UPDATE users SET status = $1 WHERE id = ANY($2)\<close>\<close>

definition update_status :: "env \<Rightarrow> store \<Rightarrow> string \<Rightarrow> json option \<Rightarrow> store option" where
  "update_status E st s v =
     (case target_ids E v of
        None \<Rightarrow> None
      | Some ids \<Rightarrow>
          Some (st\<lparr>users :=
            map (\<lambda>u. if user_id u \<in> set ids then u\<lparr>user_status := s\<rparr> else u) (users st)\<rparr>))"

section \<open>The access guard\<close>

text \<open>
  \<^verbatim>\<open>
  const verifyUser = async (req, res, next) => {
    const token = req.headers['authorization']?.split(' ')[1];
    if (!token) return res.status(401).json({ error: 'Unauthorized' });
    try {
      const decoded = jwt.verify(token, process.env.JWT_SECRET);
      const { rows } = await pool.query('SELECT * FROM users WHERE id = $1', [decoded.id]);
      if (!rows.length) {
        return res.status(403).json({ error: 'User not found' });
      }
      const user = rows[0];
      if (user.status === 'blocked') {
        return res.status(403).json({ error: 'Your account has been blocked' });
      }
      req.user = user;
      next();
    } catch (err) {
      return res.status(401).json({ error: 'Invalid token' });
    }
  };
  \<close>
  The guard answers itself (\<open>Inl\<close>) or hands the row it found to the handler (\<open>Inr\<close>).
  \<^verbatim>\<open>!token\<close> holds of \<^verbatim>\<open>undefined\<close> and of the empty string.
\<close>

definition bearer_token :: "request \<Rightarrow> string option" where
  "bearer_token req =
     (case authorization req of
        None \<Rightarrow> None
      | Some h \<Rightarrow> at_index (split CHR '' '' h) 1)"

definition verifyUser :: "env \<Rightarrow> store \<Rightarrow> nat \<Rightarrow> request \<Rightarrow> response + user" where
  "verifyUser E st now req =
     (case bearer_token req of
        None \<Rightarrow> Inl (Response 401 (Error ''Unauthorized''))
      | Some token \<Rightarrow>
          if token = [] then Inl (Response 401 (Error ''Unauthorized''))
          else
            (case jwt_verify E token now of
               None \<Rightarrow> Inl (Response 401 (Error ''Invalid token''))
             | Some uid \<Rightarrow>
                 (case select_by_id st uid of
                    [] \<Rightarrow> Inl (Response 403 (Error ''User not found''))
                  | user # _ \<Rightarrow>
                      if user_status user = ''blocked''
                      then Inl (Response 403 (Error ''Your account has been blocked''))
                      else Inr user)))"

section \<open>Bulk operations\<close>

text \<open>
  \<^verbatim>\<open>
  app.post('/block', verifyUser, async (req, res) => {
    const { userIds } = req.body;
    try {
      if (userIds.includes(req.user.id)) {
        return res.status(403).json({ error: 'You cannot block yourself' });
      }
      await pool.query('UPDATE users SET status = $1 WHERE id = ANY($2)', ['blocked', userIds]);
      res.json({ message: 'Users blocked successfully!' });
    } catch (err) {
      res.status(500).json({ error: 'Server error' });
    }
  });
  \<close>
  \<^verbatim>\<open>userIds.includes\<close> on \<^verbatim>\<open>undefined\<close> throws a TypeError; the handler's
  \<^verbatim>\<open>catch\<close> turns it, and a statement that fails, into the 500 answer.
\<close>

definition block_handler :: "env \<Rightarrow> store \<Rightarrow> user \<Rightarrow> request \<Rightarrow> response \<times> store" where
  "block_handler E st actor req =
     (case body_userIds req of
        None \<Rightarrow> (Response 500 (Error ''Server error''), st)
      | Some userIds \<Rightarrow>
          (case js_includes userIds (user_id actor) of
             None \<Rightarrow> (Response 500 (Error ''Server error''), st)
           | Some True \<Rightarrow> (Response 403 (Error ''You cannot block yourself''), st)
           | Some False \<Rightarrow>
               (case update_status E st ''blocked'' (Some userIds) of
                  None \<Rightarrow> (Response 500 (Error ''Server error''), st)
                | Some st' \<Rightarrow> (Response 200 (Message ''Users blocked successfully!''), st'))))"

definition post_block :: "env \<Rightarrow> store \<Rightarrow> nat \<Rightarrow> request \<Rightarrow> response \<times> store" where
  "post_block E st now req =
     (case verifyUser E st now req of
        Inl r \<Rightarrow> (r, st)
      | Inr actor \<Rightarrow> block_handler E st actor req)"

text \<open>
  \<^verbatim>\<open>
  app.post('/unblock', verifyUser, async (req, res) => {
    const { userIds } = req.body;
    try {
      await pool.query('UPDATE users SET status = $1 WHERE id = ANY($2)', ['active', userIds]);
      res.json({ message: 'User unblocked successfully!' });
    } catch (err) {
      res.status(500).json({ error: 'Server error' });
    }
  });
  \<close>
\<close>

definition unblock_handler :: "env \<Rightarrow> store \<Rightarrow> user \<Rightarrow> request \<Rightarrow> response \<times> store" where
  "unblock_handler E st actor req =
     (case update_status E st ''active'' (body_userIds req) of
        None \<Rightarrow> (Response 500 (Error ''Server error''), st)
      | Some st' \<Rightarrow> (Response 200 (Message ''User unblocked successfully!''), st'))"

definition post_unblock :: "env \<Rightarrow> store \<Rightarrow> nat \<Rightarrow> request \<Rightarrow> response \<times> store" where
  "post_unblock E st now req =
     (case verifyUser E st now req of
        Inl r \<Rightarrow> (r, st)
      | Inr actor \<Rightarrow> unblock_handler E st actor req)"

text \<open>\<^verbatim>\<open>DELETE FROM users WHERE id = ANY($1)\<close>\<close>

definition delete_users :: "env \<Rightarrow> store \<Rightarrow> json option \<Rightarrow> store option" where
  "delete_users E st v =
     (case target_ids E v of
        None \<Rightarrow> None
      | Some ids \<Rightarrow> Some (st\<lparr>users := filter (\<lambda>u. user_id u \<notin> set ids) (users st)\<rparr>))"

text \<open>
  \<^verbatim>\<open>
  app.post('/delete', verifyUser, async (req, res) => {
    const { userIds } = req.body;
    try {
      if (userIds.includes(req.user.id)) {
        return res.status(403).json({ error: 'Cannot delete yourself' });
      }
      await pool.query('DELETE FROM users WHERE id = ANY($1)', [userIds]);
      res.json({ message: 'User deleted successfully!' });
    } catch (err) {
      res.status(500).json({ error: 'Server error' });
    }
  });
  \<close>
\<close>

definition delete_handler :: "env \<Rightarrow> store \<Rightarrow> user \<Rightarrow> request \<Rightarrow> response \<times> store" where
  "delete_handler E st actor req =
     (case body_userIds req of
        None \<Rightarrow> (Response 500 (Error ''Server error''), st)
      | Some userIds \<Rightarrow>
          (case js_includes userIds (user_id actor) of
             None \<Rightarrow> (Response 500 (Error ''Server error''), st)
           | Some True \<Rightarrow> (Response 403 (Error ''Cannot delete yourself''), st)
           | Some False \<Rightarrow>
               (case delete_users E st (Some userIds) of
                  None \<Rightarrow> (Response 500 (Error ''Server error''), st)
                | Some st' \<Rightarrow> (Response 200 (Message ''User deleted successfully!''), st'))))"

definition post_delete :: "env \<Rightarrow> store \<Rightarrow> nat \<Rightarrow> request \<Rightarrow> response \<times> store" where
  "post_delete E st now req =
     (case verifyUser E st now req of
        Inl r \<Rightarrow> (r, st)
      | Inr actor \<Rightarrow> delete_handler E st actor req)"

section \<open>Registration\<close>

text \<open>
  Storing a string in a \<^verbatim>\<open>VARCHAR(n)\<close> column: a longer string is an error unless
  the excess is all spaces, which PostgreSQL cuts off.
\<close>

definition varchar :: "nat \<Rightarrow> string \<Rightarrow> string option" where
  "varchar n s =
     (if length s \<le> n then Some s
      else if list_all (\<lambda>c. c = CHR '' '') (drop n s) then Some (take n s)
      else None)"

text \<open>
  The errors an \<^verbatim>\<open>INSERT\<close> into the table raises, by SQLSTATE: 22021, 22001 and
  23505, with the message of each.
\<close>

datatype pg_error =
  character_not_in_repertoire | string_data_right_truncation | unique_violation

text \<open>
  \<^verbatim>\<open>INSERT INTO users (name, email, password) VALUES ($1, $2, $3) RETURNING *\<close>.
  A parameter that holds the character with code 0 is refused when the statement is
  bound (22021), a value too long for its column before a row is formed (22001); neither
  draws from the sequence. Otherwise the id is drawn from the sequence, which keeps the
  value also when the primary key or the \<^verbatim>\<open>UNIQUE\<close> constraint on \<^verbatim>\<open>email\<close> then
  refuses the row (23505); \<^verbatim>\<open>status\<close> and \<^verbatim>\<open>last_login\<close> take their defaults.
\<close>

definition insert_user :: "store \<Rightarrow> string \<Rightarrow> string \<Rightarrow> string \<Rightarrow> (pg_error + user) \<times> store" where
  "insert_user st n e p =
     (if \<not> (nul_free n \<and> nul_free e \<and> nul_free p) then (Inl character_not_in_repertoire, st)
      else
        (case (varchar 255 n, varchar 255 e, varchar 255 p) of
           (Some n', Some e', Some p') \<Rightarrow>
             (let st' = st\<lparr>users_id_seq := users_id_seq st + 1\<rparr> in
              if users_id_seq st \<in> set (map user_id (users st))
                 \<or> e' \<in> set (map user_email (users st))
              then (Inl unique_violation, st')
              else
                (let row = \<lparr>user_id = users_id_seq st, user_name = n', user_email = e',
                            user_password = p', user_status = ''active'',
                            user_last_login = None\<rparr>
                 in (Inr row, st'\<lparr>users := users st @ [row]\<rparr>)))
         | _ \<Rightarrow> (Inl string_data_right_truncation, st)))"

text \<open>
  \<^verbatim>\<open>
  app.post('/register', async (req, res) => {
    const { name, email, password } = req.body;
    if (!name || !email || !password) return res.status(400).json({ error: 'All fields required' });
    try {
      const hashedPassword = await bcrypt.hash(password, 10);
      const { rows } = await pool.query(
        'INSERT INTO users (name, email, password) VALUES ($1, $2, $3) RETURNING *',
        [name, email, hashedPassword]);
      res.status(201).json({ message: 'User registered successfully' });
    } catch (err) {
      if (err.code === '23505') {
        return res.status(400).json({ error: 'Email already exists' });
      }
      res.status(500).json({ error: 'Server error: ' + err.message });
    }
  });
  \<close>
  \<open>salt\<close> is the salt that \<^verbatim>\<open>bcrypt.hash\<close> draws for this call. \<^verbatim>\<open>!v\<close> holds of a
  field that is absent or the empty string.
\<close>

definition post_register :: "env \<Rightarrow> store \<Rightarrow> string \<Rightarrow> request \<Rightarrow> response \<times> store" where
  "post_register E st salt req =
     (case (body_name req, body_email req, body_password req) of
        (Some name, Some email, Some password) \<Rightarrow>
          if name = [] \<or> email = [] \<or> password = []
          then (Response 400 (Error ''All fields required''), st)
          else
            (let hashedPassword = bcrypt_hash E password salt in
             case insert_user st name email hashedPassword of
               (Inr row, st') \<Rightarrow> (Response 201 (Message ''User registered successfully''), st')
             | (Inl unique_violation, st') \<Rightarrow> (Response 400 (Error ''Email already exists''), st')
             | (Inl string_data_right_truncation, st') \<Rightarrow>
                 (Response 500
                    (Error ''Server error: value too long for type character varying(255)''), st')
             | (Inl character_not_in_repertoire, st') \<Rightarrow>
                 (Response 500
                    (Error (''Server error: invalid byte sequence for encoding '' @ [CHR 0x22]
                            @ ''UTF8'' @ [CHR 0x22] @ '': 0x00'')), st'))
      | _ \<Rightarrow> (Response 400 (Error ''All fields required''), st))"

section \<open>Login\<close>

text \<open>\<^verbatim>\<open>SELECT * FROM users WHERE email = $1\<close>; an \<^verbatim>\<open>undefined\<close> parameter is
  \<^verbatim>\<open>NULL\<close>, which equals no email, and a parameter that holds the character with
  code 0 is refused when the statement is bound (\<open>None\<close>).\<close>

definition select_by_email :: "store \<Rightarrow> string option \<Rightarrow> user list option" where
  "select_by_email st e =
     (case e of
        None \<Rightarrow> Some []
      | Some a \<Rightarrow>
          if nul_free a then Some (filter (\<lambda>u. user_email u = a) (users st)) else None)"

text \<open>\<^verbatim>\<open>UPDATE users SET last_login = NOW() WHERE id = $1\<close>\<close>

definition update_last_login :: "store \<Rightarrow> int \<Rightarrow> nat \<Rightarrow> store" where
  "update_last_login st i now =
     st\<lparr>users := map (\<lambda>u. if user_id u = i then u\<lparr>user_last_login := Some now\<rparr> else u) (users st)\<rparr>"

text \<open>
  \<^verbatim>\<open>
  app.post('/login', async (req, res) => {
    const { email, password } = req.body;
    try {
      const { rows } = await pool.query('SELECT * FROM users WHERE email = $1', [email]);
      if (!rows.length) {
        return res.status(400).json({ error: 'Invalid credentials' });
      }
      const user = rows[0];
      if (user.status === 'blocked') {
        return res.status(403).json({ error: 'Your account has been blocked' });
      }
      const isMatch = await bcrypt.compare(password, user.password);
      if (!isMatch) {
        return res.status(400).json({ error: 'Invalid credentials' });
      }
      await pool.query('UPDATE users SET last_login = NOW() WHERE id = $1', [user.id]);
      const token = jwt.sign({ id: user.id }, process.env.JWT_SECRET, { expiresIn: '1h' });
      res.json({ token,
                 user: { id: user.id, name: user.name, email: user.email, status: user.status } });
    } catch (err) {
      res.status(500).json({ error: 'Server error' });
    }
  });
  \<close>
  \<^verbatim>\<open>bcrypt.compare\<close> rejects an argument that is not a string, so a request without a
  password reaches the \<^verbatim>\<open>catch\<close>, as a query that fails does.
\<close>

definition post_login :: "env \<Rightarrow> store \<Rightarrow> nat \<Rightarrow> request \<Rightarrow> response \<times> store" where
  "post_login E st now req =
     (case select_by_email st (body_email req) of
        None \<Rightarrow> (Response 500 (Error ''Server error''), st)
      | Some [] \<Rightarrow> (Response 400 (Error ''Invalid credentials''), st)
      | Some (user # _) \<Rightarrow>
          if user_status user = ''blocked''
          then (Response 403 (Error ''Your account has been blocked''), st)
          else
            (case body_password req of
               None \<Rightarrow> (Response 500 (Error ''Server error''), st)
             | Some password \<Rightarrow>
                 if \<not> bcrypt_compare E password (user_password user)
                 then (Response 400 (Error ''Invalid credentials''), st)
                 else
                   (Response 200
                      (Login (jwt_sign E (user_id user) now)
                         \<lparr>pub_id = user_id user, pub_name = user_name user,
                          pub_email = user_email user, pub_status = user_status user\<rparr>),
                    update_last_login st (user_id user) now)))"

section \<open>Listing\<close>

text \<open>
  \<^verbatim>\<open>
  SELECT id, name, email, status,
         TO_CHAR(last_login, 'YYYY-MM-DD HH24:MI:SS') as last_login
  FROM users
  ORDER BY last_login DESC
  \<close>
  PostgreSQL treats \<^verbatim>\<open>NULL\<close> as larger than every value, so a descending order without
  a \<^verbatim>\<open>NULLS\<close> clause puts the \<^verbatim>\<open>NULL\<close>s first. \<open>desc_nulls_first a b\<close> says that a
  row with key \<open>a\<close> may stand before a row with key \<open>b\<close>. The text that \<^verbatim>\<open>TO_CHAR\<close>
  makes of a timestamp has a fixed width and orders as the timestamp does; the model
  keeps the timestamp.
\<close>

fun desc_nulls_first :: "nat option \<Rightarrow> nat option \<Rightarrow> bool" where
  "desc_nulls_first None b = True"
| "desc_nulls_first (Some x) None = False"
| "desc_nulls_first (Some x) (Some y) = (y \<le> x)"

text \<open>The order of rows with equal keys is not fixed by SQL; the model sorts by insertion
  and keeps them in table order.\<close>

fun insert_desc :: "user \<Rightarrow> user list \<Rightarrow> user list" where
  "insert_desc u [] = [u]"
| "insert_desc u (v # vs) =
     (if desc_nulls_first (user_last_login u) (user_last_login v) then u # v # vs
      else v # insert_desc u vs)"

definition order_by_last_login_desc :: "user list \<Rightarrow> user list" where
  "order_by_last_login_desc us = foldr insert_desc us []"

definition listed :: "user \<Rightarrow> listed_user" where
  "listed u = \<lparr>row_id = user_id u, row_name = user_name u, row_email = user_email u,
               row_status = user_status u, row_last_login = user_last_login u\<rparr>"

text \<open>
  \<^verbatim>\<open>
  app.get('/users', verifyUser, async (req, res) => {
    try {
      const result = await pool.query(`SELECT ... ORDER BY last_login DESC`);
      res.json(result.rows);
    } catch (err) {
      res.status(500).json({ error: 'Database query failed' });
    }
  });
  \<close>
\<close>

definition users_handler :: "store \<Rightarrow> user \<Rightarrow> request \<Rightarrow> response \<times> store" where
  "users_handler st actor req =
     (Response 200 (Users (map listed (order_by_last_login_desc (users st)))), st)"

definition get_users :: "env \<Rightarrow> store \<Rightarrow> nat \<Rightarrow> request \<Rightarrow> response \<times> store" where
  "get_users E st now req =
     (case verifyUser E st now req of
        Inl r \<Rightarrow> (r, st)
      | Inr actor \<Rightarrow> users_handler st actor req)"

text \<open>The rows of an answer; an answer that is not a listing has none.\<close>

definition rows_of :: "response \<Rightarrow> listed_user list" where
  "rows_of r = (case payload r of Users rs \<Rightarrow> rs | _ \<Rightarrow> [])"

section \<open>Tables the server can reach\<close>

text \<open>
  What the constraints of the table and the checks of \<^verbatim>\<open>/register\<close> maintain: ids and
  emails are unique, every id was drawn from the sequence, and an email is a non-empty
  string that fits its column and holds no character with code 0.
\<close>

definition wf_store :: "store \<Rightarrow> bool" where
  "wf_store st \<longleftrightarrow>
     distinct (map user_id (users st)) \<and>
     distinct (map user_email (users st)) \<and>
     (\<forall>u \<in> set (users st).
        user_id u < users_id_seq st \<and> user_email u \<noteq> [] \<and> length (user_email u) \<le> 255
        \<and> nul_free (user_email u))"

section \<open>The order of the listing as the specification words it\<close>

text \<open>
  The specification asks for descending order with the accounts that never logged in
  last: \<open>spec_desc_nulls_last a b\<close> says that key \<open>a\<close> may stand before key \<open>b\<close> in
  that order.
\<close>

fun spec_desc_nulls_last :: "nat option \<Rightarrow> nat option \<Rightarrow> bool" where
  "spec_desc_nulls_last a None = True"
| "spec_desc_nulls_last None (Some y) = False"
| "spec_desc_nulls_last (Some x) (Some y) = (y \<le> x)"

definition spec_listing_order :: "listed_user list \<Rightarrow> bool" where
  "spec_listing_order rs =
     sorted_wrt (\<lambda>a b. spec_desc_nulls_last (row_last_login a) (row_last_login b)) rs"

text \<open>The order that the query gives: every row may stand before the rows after it.\<close>

definition listing_order :: "listed_user list \<Rightarrow> bool" where
  "listing_order rs =
     sorted_wrt (\<lambda>a b. desc_nulls_first (row_last_login a) (row_last_login b)) rs"

section \<open>Route registration\<close>

text \<open>
  Express tries the routes in the order \<^verbatim>\<open>index.js\<close> registers them and runs the first
  whose method and path match; \<^verbatim>\<open>'*'\<close> matches every path. The file registers
  \<^verbatim>\<open>app.get('*', ...)\<close> twice, the first time before \<^verbatim>\<open>/register\<close>.
\<close>

datatype http_method = GET | POST

datatype route_path = Path string | Star

datatype route_target =
  SendIndexHtml | RegisterRoute | LoginRoute | DebugDbRoute | UsersRoute
  | BlockRoute | UnblockRoute | DeleteRoute | RootRoute

definition routes :: "(http_method \<times> route_path \<times> route_target) list" where
  "routes =
     [(GET, Star, SendIndexHtml),
      (POST, Path ''/register'', RegisterRoute),
      (POST, Path ''/login'', LoginRoute),
      (GET, Path ''/debug-db'', DebugDbRoute),
      (GET, Path ''/users'', UsersRoute),
      (GET, Star, SendIndexHtml),
      (POST, Path ''/block'', BlockRoute),
      (POST, Path ''/unblock'', UnblockRoute),
      (POST, Path ''/delete'', DeleteRoute),
      (GET, Path ''/'', RootRoute)]"

fun path_matches :: "route_path \<Rightarrow> string \<Rightarrow> bool" where
  "path_matches Star p = True"
| "path_matches (Path q) p = (q = p)"

fun dispatch :: "(http_method \<times> route_path \<times> route_target) list \<Rightarrow> http_method \<Rightarrow> string
    \<Rightarrow> route_target option" where
  "dispatch [] m p = None"
| "dispatch ((m', q, t) # rs) m p =
     (if m' = m \<and> path_matches q p then Some t else dispatch rs m p)"

section \<open>Sample data\<close>

text \<open>
  A stand-in for the libraries and for PostgreSQL's readings, for evaluating the handlers
  on concrete requests: a token spells the id and the time it was signed in unary, a
  hash is the password padded or cut to 60 characters, the text of an integer is read in
  decimal with an optional minus sign, and no parameter other than a flat array is
  accepted.
\<close>

fun place_in :: "string \<Rightarrow> int \<Rightarrow> char \<Rightarrow> int option" where
  "place_in [] i c = None"
| "place_in (d # ds) i c = (if c = d then Some i else place_in ds (i + 1) c)"

definition digit_of :: "char \<Rightarrow> int option" where
  "digit_of c = place_in ''0123456789'' 0 c"

fun decimal_of :: "int \<Rightarrow> string \<Rightarrow> int option" where
  "decimal_of acc [] = Some acc"
| "decimal_of acc (c # cs) =
     (case digit_of c of None \<Rightarrow> None | Some d \<Rightarrow> decimal_of (10 * acc + d) cs)"

definition demo_int4in :: "string \<Rightarrow> int option" where
  "demo_int4in s =
     (case s of
        [] \<Rightarrow> None
      | c # cs \<Rightarrow>
          if c = CHR ''-'' then
            (if cs = [] then None
             else (case decimal_of 0 cs of
                     None \<Rightarrow> None
                   | Some n \<Rightarrow> if int4 (- n) then Some (- n) else None))
          else (case decimal_of 0 (c # cs) of
                  None \<Rightarrow> None
                | Some n \<Rightarrow> if int4 n then Some n else None))"

definition demo_sign :: "int \<Rightarrow> nat \<Rightarrow> string" where
  "demo_sign uid t =
     (if uid < 0 then CHR ''-'' else CHR ''+'') # replicate (nat \<bar>uid\<bar>) CHR ''i''
       @ CHR ''.'' # replicate t CHR ''t''"

definition demo_verify :: "string \<Rightarrow> nat \<Rightarrow> int option" where
  "demo_verify tok now =
     (case tok of
        [] \<Rightarrow> None
      | s # rest \<Rightarrow>
          (case dropWhile (\<lambda>c. c = CHR ''i'') rest of
             [] \<Rightarrow> None
           | d # ts \<Rightarrow>
               if (s = CHR ''+'' \<or> s = CHR ''-'') \<and> d = CHR ''.''
                  \<and> list_all (\<lambda>c. c = CHR ''t'') ts \<and> now < length ts + token_ttl
               then Some ((if s = CHR ''-'' then - 1 else 1)
                          * int (length (takeWhile (\<lambda>c. c = CHR ''i'') rest)))
               else None))"

definition demo_hash :: "string \<Rightarrow> string \<Rightarrow> string" where
  "demo_hash pw salt =
     take 60 (map (\<lambda>c. if c = CHR 0x00 then CHR ''0'' else c) pw @ replicate 60 CHR ''.'')"

definition demo_compare :: "string \<Rightarrow> string \<Rightarrow> bool" where
  "demo_compare pw h = (h = demo_hash pw [])"

definition demo_env :: env where
  "demo_env = \<lparr>jwt_sign = demo_sign, jwt_verify = demo_verify,
               bcrypt_hash = demo_hash, bcrypt_compare = demo_compare,
               pg_int4in = demo_int4in, pg_integer_array = (\<lambda>v. PgError)\<rparr>"

definition alice :: user where
  "alice = \<lparr>user_id = 1, user_name = ''Alice'', user_email = ''a@x.org'',
            user_password = demo_hash ''apw'' [], user_status = ''active'',
            user_last_login = Some 5\<rparr>"

definition bob :: user where
  "bob = \<lparr>user_id = 2, user_name = ''Bob'', user_email = ''b@x.org'',
          user_password = demo_hash ''bpw'' [], user_status = ''active'',
          user_last_login = None\<rparr>"

definition carol :: user where
  "carol = \<lparr>user_id = 3, user_name = ''Carol'', user_email = ''c@x.org'',
            user_password = demo_hash ''cpw'' [], user_status = ''blocked'',
            user_last_login = Some 9\<rparr>"

definition demo_store :: store where
  "demo_store = \<lparr>users = [alice, bob, carol], users_id_seq = 4\<rparr>"

text \<open>A request with a bearer token and a value for \<^verbatim>\<open>userIds\<close>, and one with the
  fields of a form.\<close>

definition bulk_request :: "string \<Rightarrow> json option \<Rightarrow> request" where
  "bulk_request tok ids =
     \<lparr>authorization = Some (''Bearer '' @ tok), body_name = None, body_email = None,
      body_password = None, body_userIds = ids\<rparr>"

definition form_request :: "string option \<Rightarrow> string option \<Rightarrow> string option \<Rightarrow> request" where
  "form_request n e p =
     \<lparr>authorization = None, body_name = n, body_email = e, body_password = p,
      body_userIds = None\<rparr>"

section \<open>Facts about the guard and the sample data\<close>

lemma select_by_id_Cons_mem:
  "select_by_id st i = u # rest \<Longrightarrow> u \<in> set (users st) \<and> user_id u = i"
proof -
  assume a: "select_by_id st i = u # rest"
  then have "u \<in> set (filter (\<lambda>v. user_id v = i) (users st))"
    by (simp add: select_by_id_def)
  then show ?thesis by simp
qed

lemma verifyUser_Inr_iff:
  "verifyUser E st now req = Inr u \<longleftrightarrow>
     (\<exists>tok rest. bearer_token req = Some tok \<and> tok \<noteq> [] \<and> jwt_verify E tok now = Some (user_id u)
        \<and> select_by_id st (user_id u) = u # rest \<and> user_status u \<noteq> ''blocked'')"
  by (auto simp: verifyUser_def split: option.splits list.splits if_splits
           dest: select_by_id_Cons_mem)

lemma demo_verify_sign:
  "now < t + token_ttl \<Longrightarrow> demo_verify (demo_sign uid t) now = Some uid"
  by (auto simp: demo_verify_def demo_sign_def dropWhile_append3 list_all_iff
           takeWhile_tail)



lemma split_no_sep: "c \<notin> set xs \<Longrightarrow> split c xs = [xs]"
  by (induction xs) auto

lemma split_at_sep: "c \<notin> set xs \<Longrightarrow> split c (xs @ c # ys) = xs # split c ys"
  by (induction xs) auto

lemma bearer_bulk_request:
  "CHR '' '' \<notin> set tok \<Longrightarrow> bearer_token (bulk_request tok ids) = Some tok"
proof -
  assume a: "CHR '' '' \<notin> set tok"
  have "split CHR '' '' (''Bearer'' @ CHR '' '' # tok) = ''Bearer'' # split CHR '' '' tok"
    by (rule split_at_sep) simp
  then show ?thesis using a
    by (simp add: bearer_token_def bulk_request_def at_index_def split_no_sep)
qed

lemma demo_sign_no_space: "CHR '' '' \<notin> set (demo_sign uid t)"
  by (auto simp: demo_sign_def)

lemma demo_verify_env: "now < t + token_ttl \<Longrightarrow> jwt_verify demo_env (demo_sign uid t) now = Some uid"
  by (simp add: demo_env_def demo_verify_sign)

lemma demo_select:
  "select_by_id demo_store 1 = [alice]" "select_by_id demo_store 2 = [bob]"
  "select_by_id demo_store 3 = [carol]"
  by (simp_all add: select_by_id_def demo_store_def alice_def bob_def carol_def)

lemma demo_guard:
  "verifyUser demo_env demo_store 10 (bulk_request (demo_sign 1 0) ids) = Inr alice"
proof -
  have "demo_sign 1 0 \<noteq> []" by (simp add: demo_sign_def)
  moreover have "user_status alice \<noteq> ''blocked''" by (simp add: alice_def)
  ultimately show ?thesis
    by (simp add: verifyUser_def bearer_bulk_request demo_sign_no_space demo_verify_env
        token_ttl_def demo_select)
qed

lemma body_bulk_request: "body_userIds (bulk_request tok v) = v"
  by (simp add: bulk_request_def)

section \<open>Reading the array of ids\<close>

lemma those_eq_Some_map: "those xs = Some ys \<longleftrightarrow> xs = map Some ys"
  by (induction xs arbitrary: ys) (auto split: option.splits)

lemma set_array_ids: "set (array_ids a) = {n. Some n \<in> set a}"
  by (induction a) (auto simp: array_ids_def List.map_filter_simps split: option.splits)

lemma target_ids_flat:
  "\<not> list_ex is_array xs \<Longrightarrow>
   target_ids E (Some (JArr xs)) = map_option array_ids (flat_int4_array E xs)"
  by (simp add: target_ids_def int4_array_param_def split: option.splits)

lemma flat_number_targeted:
  assumes "\<not> list_ex is_array xs" "target_ids E (Some (JArr xs)) = Some ids" "JNum n \<in> set xs"
  shows "n \<in> set ids"
proof -
  from assms(1,2) obtain a where a: "flat_int4_array E xs = Some a" "ids = array_ids a"
    by (auto simp: target_ids_flat)
  then have m: "map (element_int4 E) xs = map Some a"
    by (simp add: flat_int4_array_def those_eq_Some_map)
  from assms(3) have "element_int4 E (JNum n) \<in> element_int4 E ` set xs"
    by (rule imageI)
  also have "element_int4 E ` set xs = Some ` set a"
    using m by (metis set_map)
  finally obtain x where "x \<in> set a" "element_int4 E (JNum n) = Some x"
    by blast
  then have "Some n \<in> set a" by (auto split: if_splits)
  with a(2) show ?thesis by (simp add: set_array_ids)
qed

lemma flat_includes:
  assumes "\<not> list_ex is_array xs" "target_ids E (Some (JArr xs)) = Some ids" "i \<notin> set ids"
  shows "js_includes (JArr xs) i = Some False"
  using flat_number_targeted [OF assms(1,2), of i] assms(3) by auto

lemma update_status_Some:
  "target_ids E v = Some ids \<Longrightarrow>
   update_status E st s v = Some (st\<lparr>users :=
     map (\<lambda>u. if user_id u \<in> set ids then u\<lparr>user_status := s\<rparr> else u) (users st)\<rparr>)"
  by (simp add: update_status_def)

lemma update_status_None: "target_ids E v = None \<Longrightarrow> update_status E st s v = None"
  by (simp add: update_status_def)


lemma demo_targets:
  "target_ids demo_env (Some (JArr [JNum 1, JNum 2])) = Some [1, 2]"
  "target_ids demo_env (Some (JArr [JNum 2, JNum 7])) = Some [2, 7]"
  "target_ids demo_env (Some (JArr [JNum 2])) = Some [2]"
  "target_ids demo_env (Some (JArr [JNum 3, JNum 7])) = Some [3, 7]"
  "target_ids demo_env (Some (JArr [JNum 1, JNum 3, JNum 7])) = Some [1, 3, 7]"
  "target_ids demo_env (Some (JArr [JStr ''1'', JStr ''2''])) = Some [1, 2]"
  "target_ids demo_env (Some (JArr [JNum 2, JNum 2147483648])) = None"
  "target_ids demo_env (Some (JArr [JNum 3, JNum 2147483648])) = None"
  by (simp_all add: target_ids_def int4_array_param_def flat_int4_array_def int4_def
        array_ids_def nul_free_def demo_env_def demo_int4in_def
        digit_of_def)


section \<open>Bulk block\<close>

lemma post_block_ok:
  assumes "verifyUser E st now req = Inr actor" "body_userIds req = Some (JArr xs)"
    "\<not> list_ex is_array xs" "target_ids E (body_userIds req) = Some ids"
    "user_id actor \<notin> set ids"
  shows "post_block E st now req =
     (Response 200 (Message ''Users blocked successfully!''),
      st\<lparr>users := map (\<lambda>u. if user_id u \<in> set ids then u\<lparr>user_status := ''blocked''\<rparr> else u)
                       (users st)\<rparr>)"
proof -
  have "js_includes (JArr xs) (user_id actor) = Some False"
    using assms(2-5) by (intro flat_includes [of xs E ids]) simp_all
  then show ?thesis
    using assms(1,2) update_status_Some [OF assms(4), of st "''blocked''"]
    by (simp add: post_block_def block_handler_def)
qed

text \<open>
  A batch that holds the actor's id as a number is refused, and nothing changes.
\<close>

lemma post_block_self_number:
  assumes "verifyUser E st now req = Inr actor" "body_userIds req = Some (JArr xs)"
    "JNum (user_id actor) \<in> set xs"
  shows "post_block E st now req = (Response 403 (Error ''You cannot block yourself''), st)"
  using assms by (simp add: post_block_def block_handler_def)

lemma post_block_fails:
  assumes "verifyUser E st now req = Inr actor" "target_ids E (body_userIds req) = None"
  shows "fst (post_block E st now req) \<noteq> Response 200 (Message ''Users blocked successfully!'')
         \<and> snd (post_block E st now req) = st"
  using assms update_status_None [OF assms(2), of st "''blocked''"]
  by (auto simp: post_block_def block_handler_def split: option.splits bool.splits)

lemma select_by_id_blocked:
  assumes "target \<in> set (users st)" "user_id target \<in> set ids"
  shows "\<exists>u rest. select_by_id
            (st\<lparr>users := map (\<lambda>u. if user_id u \<in> set ids then u\<lparr>user_status := ''blocked''\<rparr> else u)
                             (users st)\<rparr>) (user_id target)
          = u # rest \<and> user_status u = ''blocked''"
proof -
  have "select_by_id st (user_id target) \<noteq> []"
    using assms(1) by (auto simp: select_by_id_def filter_empty_conv)
  then obtain u rest where sel: "select_by_id st (user_id target) = u # rest"
    by (cases "select_by_id st (user_id target)") auto
  then have id: "user_id u = user_id target" by (simp add: select_by_id_Cons_mem)
  have "select_by_id
          (st\<lparr>users := map (\<lambda>u. if user_id u \<in> set ids then u\<lparr>user_status := ''blocked''\<rparr> else u)
                           (users st)\<rparr>) (user_id target)
        = map (\<lambda>u. if user_id u \<in> set ids then u\<lparr>user_status := ''blocked''\<rparr> else u)
            (select_by_id st (user_id target))"
    by (simp add: select_by_id_def filter_map comp_def if_distrib [of user_id] cong: if_cong)
  with sel id assms(2) show ?thesis by simp
qed

lemma guard_rejects_blocked_row:
  assumes "target \<in> set (users st)" "user_id target \<in> set ids"
    "bearer_token req' = Some tok'" "tok' \<noteq> []" "jwt_verify E tok' now' = Some (user_id target)"
  shows "verifyUser E
           (st\<lparr>users := map (\<lambda>u. if user_id u \<in> set ids then u\<lparr>user_status := ''blocked''\<rparr> else u)
                            (users st)\<rparr>) now' req'
           = Inl (Response 403 (Error ''Your account has been blocked''))"
proof -
  obtain u rest where "select_by_id
            (st\<lparr>users := map (\<lambda>u. if user_id u \<in> set ids then u\<lparr>user_status := ''blocked''\<rparr> else u)
                             (users st)\<rparr>) (user_id target)
          = u # rest" "user_status u = ''blocked''"
    using select_by_id_blocked [OF assms(1,2)] by blast
  with assms(3-5) show ?thesis by (simp add: verifyUser_def)
qed

lemma verifyUser_Inl_code: "verifyUser E st now req = Inl r \<Longrightarrow> code r \<noteq> 200"
  by (auto simp: verifyUser_def split: option.splits list.splits if_splits)

lemma block_handler_200D:
  "block_handler E st actor req = (Response 200 (Message ''Users blocked successfully!''), st')
   \<Longrightarrow> update_status E st ''blocked'' (body_userIds req) = Some st'"
  by (auto simp: block_handler_def split: option.splits bool.splits)

lemma post_block_200D:
  assumes "post_block E st now req = (Response 200 (Message ''Users blocked successfully!''), st')"
  shows "update_status E st ''blocked'' (body_userIds req) = Some st'"
proof (cases "verifyUser E st now req")
  case (Inl r)
  with assms verifyUser_Inl_code [OF Inl] show ?thesis by (auto simp: post_block_def)
next
  case (Inr actor)
  with assms show ?thesis by (simp add: post_block_def block_handler_200D)
qed

text \<open>
  C1. The claim asks that every batch that holds the actor's own id is refused with 403
  and changes nothing. \<^verbatim>\<open>POST /block\<close> does not do that: when no element of the
  array is the actor's id as a number, but PostgreSQL reads the actor's id among the
  elements (a string such as \<^verbatim>\<open>"1"\<close> for the id 1), the strict comparison of
  \<^verbatim>\<open>includes\<close> finds nothing, the \<^verbatim>\<open>UPDATE\<close> runs, the answer is 200, and the
  actor is blocked: the very same request sent again is answered 403 by the guard.
\<close>

theorem bulkBlock_self_bypass:
  assumes "verifyUser E st now req = Inr actor"
    and "body_userIds req = Some (JArr xs)"
    and "JNum (user_id actor) \<notin> set xs"
    and "target_ids E (body_userIds req) = Some ids"
    and "user_id actor \<in> set ids"
  shows "fst (post_block E st now req) = Response 200 (Message ''Users blocked successfully!'')
    \<and> verifyUser E (snd (post_block E st now req)) now req
        = Inl (Response 403 (Error ''Your account has been blocked''))"
proof -
  let ?st' = "st\<lparr>users := map (\<lambda>u. if user_id u \<in> set ids then u\<lparr>user_status := ''blocked''\<rparr> else u)
                       (users st)\<rparr>"
  have upd: "update_status E st ''blocked'' (Some (JArr xs)) = Some ?st'"
    using update_status_Some [OF assms(4), of st "''blocked''"] assms(2) by simp
  have r: "post_block E st now req = (Response 200 (Message ''Users blocked successfully!''), ?st')"
    by (simp add: post_block_def block_handler_def assms(1,2,3) upd)
  obtain tok rest where t: "bearer_token req = Some tok" "tok \<noteq> []"
      "jwt_verify E tok now = Some (user_id actor)"
      "select_by_id st (user_id actor) = actor # rest"
    using assms(1) unfolding verifyUser_Inr_iff by blast
  have mem: "actor \<in> set (users st)"
    using select_by_id_Cons_mem [OF t(4)] by simp
  have g: "verifyUser E ?st' now req = Inl (Response 403 (Error ''Your account has been blocked''))"
    by (rule guard_rejects_blocked_row [OF mem assms(5) t(1-3)])
  show ?thesis unfolding r using g by simp
qed

theorem bulkBlock_self_bypass_witness:
  "post_block demo_env demo_store 10 (bulk_request (demo_sign 1 0) (Some (JArr [JStr ''1'', JStr ''2''])))
     = (Response 200 (Message ''Users blocked successfully!''),
        \<lparr>users = [alice\<lparr>user_status := ''blocked''\<rparr>, bob\<lparr>user_status := ''blocked''\<rparr>, carol],
         users_id_seq = 4\<rparr>)
   \<and> verifyUser demo_env
        (snd (post_block demo_env demo_store 10
                (bulk_request (demo_sign 1 0) (Some (JArr [JStr ''1'', JStr ''2''])))))
        10 (bulk_request (demo_sign 1 0) (Some (JArr [JStr ''1'', JStr ''2''])))
      = Inl (Response 403 (Error ''Your account has been blocked''))"
proof -
  let ?req = "bulk_request (demo_sign 1 0) (Some (JArr [JStr ''1'', JStr ''2'']))"
  have h: "body_userIds ?req = Some (JArr [JStr ''1'', JStr ''2''])"
    "JNum (user_id alice) \<notin> set [JStr ''1'', JStr ''2'']"
    "target_ids demo_env (body_userIds ?req) = Some [1, 2]"
    "user_id alice \<in> set [1, 2]"
    by (simp_all add: body_bulk_request demo_targets) (simp add: alice_def)
  have "post_block demo_env demo_store 10 ?req
     = (Response 200 (Message ''Users blocked successfully!''),
        \<lparr>users = [alice\<lparr>user_status := ''blocked''\<rparr>, bob\<lparr>user_status := ''blocked''\<rparr>, carol],
         users_id_seq = 4\<rparr>)"
    using demo_guard [of "Some (JArr [JStr ''1'', JStr ''2''])"]
      update_status_Some [OF h(3), of demo_store "''blocked''"]
    by (simp add: post_block_def block_handler_def body_bulk_request)
       (simp add: demo_store_def alice_def bob_def carol_def)
  with bulkBlock_self_bypass [OF demo_guard h] show ?thesis by simp
qed


section \<open>The access guard decides in order\<close>

text \<open>
  C2. The guard decides in this order: no bearer token (none, or an empty one) gives 401
  \<^verbatim>\<open>Unauthorized\<close>; a token that does not verify gives 401 \<^verbatim>\<open>Invalid token\<close>; a
  verified token whose id selects no row gives 403 \<^verbatim>\<open>User not found\<close>; a row with
  status \<^verbatim>\<open>blocked\<close> gives 403 \<^verbatim>\<open>Your account has been blocked\<close>; otherwise the
  row is handed on. The row is read from the table at every call, so once
  \<^verbatim>\<open>POST /block\<close> has answered 200 for a batch in which PostgreSQL reads the id of an
  existing account, any later request whose token still verifies to that id is answered
  403.
\<close>

theorem access_guard_order:
  "(bearer_token req = None \<or> bearer_token req = Some [] \<longrightarrow>
      verifyUser E st now req = Inl (Response 401 (Error ''Unauthorized'')))
   \<and> (bearer_token req = Some tok \<and> tok \<noteq> [] \<and> jwt_verify E tok now = None \<longrightarrow>
      verifyUser E st now req = Inl (Response 401 (Error ''Invalid token'')))
   \<and> (bearer_token req = Some tok \<and> tok \<noteq> [] \<and> jwt_verify E tok now = Some uid
        \<and> select_by_id st uid = [] \<longrightarrow>
      verifyUser E st now req = Inl (Response 403 (Error ''User not found'')))
   \<and> (bearer_token req = Some tok \<and> tok \<noteq> [] \<and> jwt_verify E tok now = Some uid
        \<and> select_by_id st uid = u # rest \<and> user_status u = ''blocked'' \<longrightarrow>
      verifyUser E st now req = Inl (Response 403 (Error ''Your account has been blocked'')))
   \<and> (bearer_token req = Some tok \<and> tok \<noteq> [] \<and> jwt_verify E tok now = Some uid
        \<and> select_by_id st uid = u # rest \<and> user_status u \<noteq> ''blocked'' \<longrightarrow>
      verifyUser E st now req = Inr u)
   \<and> (post_block E st now req = (Response 200 (Message ''Users blocked successfully!''), st')
        \<and> target_ids E (body_userIds req) = Some ids
        \<and> target \<in> set (users st) \<and> user_id target \<in> set ids
        \<and> bearer_token req' = Some tok' \<and> tok' \<noteq> []
        \<and> jwt_verify E tok' now' = Some (user_id target) \<longrightarrow>
      verifyUser E st' now' req'
        = Inl (Response 403 (Error ''Your account has been blocked'')))"
proof (intro conjI impI)
  assume "post_block E st now req = (Response 200 (Message ''Users blocked successfully!''), st')
        \<and> target_ids E (body_userIds req) = Some ids
        \<and> target \<in> set (users st) \<and> user_id target \<in> set ids
        \<and> bearer_token req' = Some tok' \<and> tok' \<noteq> []
        \<and> jwt_verify E tok' now' = Some (user_id target)"
  then have ok: "post_block E st now req = (Response 200 (Message ''Users blocked successfully!''), st')"
    and ids: "target_ids E (body_userIds req) = Some ids"
    and tgt: "target \<in> set (users st)" "user_id target \<in> set ids"
      "bearer_token req' = Some tok'" "tok' \<noteq> []"
      "jwt_verify E tok' now' = Some (user_id target)"
    by simp_all
  have "st' = st\<lparr>users := map (\<lambda>u. if user_id u \<in> set ids then u\<lparr>user_status := ''blocked''\<rparr> else u)
                       (users st)\<rparr>"
    using post_block_200D [OF ok] update_status_Some [OF ids, of st "''blocked''"] by simp
  then show "verifyUser E st' now' req'
        = Inl (Response 403 (Error ''Your account has been blocked''))"
    using guard_rejects_blocked_row [OF tgt] by simp
qed (auto simp: verifyUser_def)

lemma bearer_token_absent:
  "bearer_token (form_request n e p) = None"
  by (simp add: bearer_token_def form_request_def)


lemma demo_block_bob:
  "post_block demo_env demo_store 10 (bulk_request (demo_sign 1 0) (Some (JArr [JNum 2, JNum 7])))
     = (Response 200 (Message ''Users blocked successfully!''),
        \<lparr>users = [alice, bob\<lparr>user_status := ''blocked''\<rparr>, carol], users_id_seq = 4\<rparr>)"
proof -
  have "user_id alice \<notin> set [2, 7]" by (simp add: alice_def)
  then show ?thesis
    using post_block_ok [OF demo_guard, of "Some (JArr [JNum 2, JNum 7])" "[JNum 2, JNum 7]" "[2, 7]"]
    by (simp add: body_bulk_request demo_targets)
       (simp add: demo_store_def alice_def bob_def carol_def)
qed

theorem access_guard_order_witness:
  "verifyUser demo_env demo_store 10 (form_request None None None)
      = Inl (Response 401 (Error ''Unauthorized''))
   \<and> verifyUser demo_env demo_store 10 (bulk_request ''forged'' None)
      = Inl (Response 401 (Error ''Invalid token''))
   \<and> verifyUser demo_env demo_store 10 (bulk_request (demo_sign 7 0) None)
      = Inl (Response 403 (Error ''User not found''))
   \<and> verifyUser demo_env demo_store 10 (bulk_request (demo_sign 3 0) None)
      = Inl (Response 403 (Error ''Your account has been blocked''))
   \<and> verifyUser demo_env demo_store 10 (bulk_request (demo_sign 2 0) None) = Inr bob
   \<and> verifyUser demo_env
        \<lparr>users = [alice, bob\<lparr>user_status := ''blocked''\<rparr>, carol], users_id_seq = 4\<rparr>
        11 (bulk_request (demo_sign 2 0) None)
      = Inl (Response 403 (Error ''Your account has been blocked''))"
proof (intro conjI)
  show "verifyUser demo_env demo_store 10 (form_request None None None)
      = Inl (Response 401 (Error ''Unauthorized''))"
    using access_guard_order [of "form_request None None None" demo_env demo_store 10]
    by (simp add: bearer_token_absent)
  have forged: "jwt_verify demo_env ''forged'' 10 = None"
    by (simp add: demo_env_def demo_verify_def)
  show "verifyUser demo_env demo_store 10 (bulk_request ''forged'' None)
      = Inl (Response 401 (Error ''Invalid token''))"
    using access_guard_order [of "bulk_request ''forged'' None" demo_env demo_store 10 "''forged''"]
    by (simp add: bearer_bulk_request forged)
  have nosuch: "select_by_id demo_store 7 = []"
    by (simp add: select_by_id_def demo_store_def alice_def bob_def carol_def)
  have nonempty: "demo_sign uid t \<noteq> []" for uid t by (simp add: demo_sign_def)
  show "verifyUser demo_env demo_store 10 (bulk_request (demo_sign 7 0) None)
      = Inl (Response 403 (Error ''User not found''))"
    using access_guard_order [of "bulk_request (demo_sign 7 0) None" demo_env demo_store 10
        "demo_sign 7 0" 7]
    by (simp add: bearer_bulk_request demo_sign_no_space demo_verify_env token_ttl_def nosuch
        nonempty)
  show "verifyUser demo_env demo_store 10 (bulk_request (demo_sign 3 0) None)
      = Inl (Response 403 (Error ''Your account has been blocked''))"
    using access_guard_order [of "bulk_request (demo_sign 3 0) None" demo_env demo_store 10
        "demo_sign 3 0" 3 carol "[]"]
    by (simp add: bearer_bulk_request demo_sign_no_space demo_verify_env token_ttl_def
        demo_select nonempty) (simp add: carol_def)
  show "verifyUser demo_env demo_store 10 (bulk_request (demo_sign 2 0) None) = Inr bob"
    using access_guard_order [of "bulk_request (demo_sign 2 0) None" demo_env demo_store 10
        "demo_sign 2 0" 2 bob "[]"]
    by (simp add: bearer_bulk_request demo_sign_no_space demo_verify_env token_ttl_def
        demo_select nonempty) (simp add: bob_def)
  have bob_in: "bob \<in> set (users demo_store)" "user_id bob = 2"
    by (simp_all add: demo_store_def bob_def)
  have tok: "bearer_token (bulk_request (demo_sign 2 0) None) = Some (demo_sign 2 0)"
    "jwt_verify demo_env (demo_sign 2 0) 11 = Some (user_id bob)"
    by (simp_all add: bearer_bulk_request demo_sign_no_space demo_verify_env token_ttl_def bob_def)
  have ids: "target_ids demo_env
      (body_userIds (bulk_request (demo_sign 1 0) (Some (JArr [JNum 2, JNum 7])))) = Some [2, 7]"
    by (simp add: body_bulk_request demo_targets)
  show "verifyUser demo_env
        \<lparr>users = [alice, bob\<lparr>user_status := ''blocked''\<rparr>, carol], users_id_seq = 4\<rparr>
        11 (bulk_request (demo_sign 2 0) None)
      = Inl (Response 403 (Error ''Your account has been blocked''))"
    using access_guard_order [of "bulk_request (demo_sign 1 0) (Some (JArr [JNum 2, JNum 7]))"
        demo_env demo_store 10 _ _ _ _
        "\<lparr>users = [alice, bob\<lparr>user_status := ''blocked''\<rparr>, carol], users_id_seq = 4\<rparr>"
        "[2, 7]" bob "bulk_request (demo_sign 2 0) None" "demo_sign 2 0" 11]
      demo_block_bob bob_in tok ids nonempty [of 2 0]
    by simp
qed

section \<open>Login of a blocked account, and failed logins\<close>

lemma filter_key_distinct:
  "distinct (map f xs) \<Longrightarrow> x \<in> set xs \<Longrightarrow> filter (\<lambda>y. f y = f x) xs = [x]"
proof (induction xs)
  case Nil
  then show ?case by simp
next
  case (Cons a xs)
  show ?case
  proof (cases "a = x")
    case True
    from Cons.prems have "f a \<notin> f ` set xs" by simp
    with True have "\<forall>y \<in> set xs. f y \<noteq> f x" by (metis imageI)
    then have "filter (\<lambda>y. f y = f x) xs = []" by (simp add: filter_empty_conv)
    with True show ?thesis by simp
  next
    case False
    with Cons.prems have "x \<in> set xs" "f a \<noteq> f x" by auto
    with Cons show ?thesis by simp
  qed
qed

lemma select_by_email_unique:
  "wf_store st \<Longrightarrow> u \<in> set (users st) \<Longrightarrow> select_by_email st (Some (user_email u)) = Some [u]"
  by (simp add: wf_store_def select_by_email_def filter_key_distinct)

lemma select_by_email_none:
  "nul_free e \<Longrightarrow> e \<notin> user_email ` set (users st) \<Longrightarrow> select_by_email st (Some e) = Some []"
  by (auto simp: select_by_email_def filter_empty_conv)

lemma wf_demo_store: "wf_store demo_store"
  by (simp add: wf_store_def demo_store_def alice_def bob_def carol_def nul_free_def)



text \<open>
  C3. For an account whose status is \<^verbatim>\<open>blocked\<close>, \<^verbatim>\<open>POST /login\<close> with its email
  answers 403 \<^verbatim>\<open>Your account has been blocked\<close> whatever the password field holds
  (the right password, a wrong one, or none), leaves the table as it was, and the
  answer differs from the 400 \<^verbatim>\<open>Invalid credentials\<close> answer: the status is checked
  before the password is compared.
\<close>

theorem login_blocked_rejected:
  assumes "wf_store st"
    and "u \<in> set (users st)"
    and "user_status u = ''blocked''"
    and "body_email req = Some (user_email u)"
  shows "post_login E st now (req\<lparr>body_password := pw\<rparr>)
           = (Response 403 (Error ''Your account has been blocked''), st)
         \<and> fst (post_login E st now (req\<lparr>body_password := pw\<rparr>))
           \<noteq> Response 400 (Error ''Invalid credentials'')"
  using assms by (simp add: post_login_def select_by_email_unique)

theorem login_blocked_rejected_witness:
  "post_login demo_env demo_store 10 (form_request None (Some ''c@x.org'') (Some ''cpw''))
     = (Response 403 (Error ''Your account has been blocked''), demo_store)
   \<and> post_login demo_env demo_store 10 (form_request None (Some ''c@x.org'') (Some ''other''))
     = (Response 403 (Error ''Your account has been blocked''), demo_store)
   \<and> post_login demo_env demo_store 10 (form_request None (Some ''c@x.org'') None)
     = (Response 403 (Error ''Your account has been blocked''), demo_store)"
proof -
  have c: "carol \<in> set (users demo_store)" "user_status carol = ''blocked''"
    "body_email (form_request None (Some ''c@x.org'') None) = Some (user_email carol)"
    by (simp_all add: demo_store_def carol_def form_request_def)
  have r: "(form_request None (Some ''c@x.org'') None)\<lparr>body_password := p\<rparr>
             = form_request None (Some ''c@x.org'') p" for p
    by (simp add: form_request_def)
  show ?thesis
    using login_blocked_rejected [OF wf_demo_store c, of demo_env 10 "Some ''cpw''"]
      login_blocked_rejected [OF wf_demo_store c, of demo_env 10 "Some ''other''"]
      login_blocked_rejected [OF wf_demo_store c, of demo_env 10 None]
    by (simp add: r)
qed


text \<open>
  C7, amended. For an account whose status is not \<^verbatim>\<open>blocked\<close>, \<^verbatim>\<open>POST /login\<close>
  with its email and a password that does not match, and \<^verbatim>\<open>POST /login\<close> with an email
  that no account has and that holds no character with code 0, are answered alike: 400
  \<^verbatim>\<open>Invalid credentials\<close>, the table unchanged.
\<close>

theorem login_failures_indistinguishable:
  assumes "wf_store st"
    and "u \<in> set (users st)"
    and "user_status u \<noteq> ''blocked''"
    and "body_email req = Some (user_email u)"
    and "body_password req = Some pw"
    and "\<not> bcrypt_compare E pw (user_password u)"
    and "body_email req' = Some e'"
    and "nul_free e'"
    and "e' \<notin> user_email ` set (users st)"
  shows "post_login E st now req = (Response 400 (Error ''Invalid credentials''), st)
         \<and> post_login E st now req' = (Response 400 (Error ''Invalid credentials''), st)"
  using assms by (simp add: post_login_def select_by_email_unique select_by_email_none)

lemma wrong_password_carol: "\<not> bcrypt_compare demo_env ''wrong'' (user_password carol)"
  by code_simp

lemma wrong_password_alice: "\<not> bcrypt_compare demo_env ''wrong'' (user_password alice)"
  by (simp add: demo_env_def demo_compare_def demo_hash_def alice_def)


text \<open>
  C7 as stated does not hold of every account: for the blocked account of the sample
  table a wrong password is answered 403, an unknown email 400.
\<close>

theorem login_failures_counterexample:
  "carol \<in> set (users demo_store)
   \<and> \<not> bcrypt_compare demo_env ''wrong'' (user_password carol)
   \<and> ''z@x.org'' \<notin> user_email ` set (users demo_store)
   \<and> fst (post_login demo_env demo_store 10 (form_request None (Some ''c@x.org'') (Some ''wrong'')))
       = Response 403 (Error ''Your account has been blocked'')
   \<and> fst (post_login demo_env demo_store 10 (form_request None (Some ''z@x.org'') (Some ''wrong'')))
       = Response 400 (Error ''Invalid credentials'')"
  by (simp add: wrong_password_carol)
     (simp add: post_login_def select_by_email_def form_request_def demo_store_def alice_def
        bob_def carol_def nul_free_def)

theorem login_failures_indistinguishable_witness:
  "post_login demo_env demo_store 10 (form_request None (Some ''a@x.org'') (Some ''wrong''))
     = (Response 400 (Error ''Invalid credentials''), demo_store)
   \<and> post_login demo_env demo_store 10 (form_request None (Some ''z@x.org'') (Some ''wrong''))
     = (Response 400 (Error ''Invalid credentials''), demo_store)"
proof -
  have a: "alice \<in> set (users demo_store)" "user_status alice \<noteq> ''blocked''"
    "body_email (form_request None (Some ''a@x.org'') (Some ''wrong'')) = Some (user_email alice)"
    "body_password (form_request None (Some ''a@x.org'') (Some ''wrong'')) = Some ''wrong''"
    by (simp_all add: demo_store_def alice_def form_request_def)
  have z: "body_email (form_request None (Some ''z@x.org'') (Some ''wrong'')) = Some ''z@x.org''"
    "nul_free ''z@x.org''"
    "''z@x.org'' \<notin> user_email ` set (users demo_store)"
    by (simp_all add: demo_store_def alice_def bob_def carol_def form_request_def nul_free_def)
  show ?thesis
    by (rule login_failures_indistinguishable [OF wf_demo_store a wrong_password_alice z])
qed

section \<open>Bulk requests without a list of ids\<close>

text \<open>
  C10. A request to \<^verbatim>\<open>POST /block\<close> or \<^verbatim>\<open>POST /delete\<close> that passes the guard and
  whose body has no \<^verbatim>\<open>userIds\<close> field is answered 500 \<^verbatim>\<open>Server error\<close> (not 400),
  and the table is unchanged.
\<close>

theorem bulk_without_userIds:
  assumes "verifyUser E st now req = Inr actor"
    and "body_userIds req = None"
  shows "post_block E st now req = (Response 500 (Error ''Server error''), st)
         \<and> post_delete E st now req = (Response 500 (Error ''Server error''), st)"
  using assms by (simp add: post_block_def block_handler_def post_delete_def delete_handler_def)

theorem bulk_without_userIds_witness:
  "post_block demo_env demo_store 10 (bulk_request (demo_sign 1 0) None)
     = (Response 500 (Error ''Server error''), demo_store)
   \<and> post_delete demo_env demo_store 10 (bulk_request (demo_sign 1 0) None)
     = (Response 500 (Error ''Server error''), demo_store)"
proof -
  have "body_userIds (bulk_request (demo_sign 1 0) None) = None"
    by (simp add: bulk_request_def)
  then show ?thesis by (rule bulk_without_userIds [OF demo_guard])
qed


section \<open>The listing\<close>

lemma desc_nulls_first_trans:
  "desc_nulls_first a b \<Longrightarrow> desc_nulls_first b c \<Longrightarrow> desc_nulls_first a c"
  by (cases a; cases b; cases c) auto

lemma desc_nulls_first_total: "desc_nulls_first a b \<or> desc_nulls_first b a"
  by (cases a; cases b) auto

lemma mset_insert_desc: "mset (insert_desc u us) = add_mset u (mset us)"
  by (induction us) auto

lemma set_insert_desc: "set (insert_desc u us) = insert u (set us)"
  by (induction us) auto

lemma sorted_insert_desc:
  "sorted_wrt (\<lambda>a b. desc_nulls_first (user_last_login a) (user_last_login b)) us
   \<Longrightarrow> sorted_wrt (\<lambda>a b. desc_nulls_first (user_last_login a) (user_last_login b))
         (insert_desc u us)"
proof (induction us)
  case Nil
  then show ?case by simp
next
  case (Cons v vs)
  show ?case
  proof (cases "desc_nulls_first (user_last_login u) (user_last_login v)")
    case True
    with Cons.prems show ?thesis
      by (auto intro: desc_nulls_first_trans)
  next
    case False
    then have "desc_nulls_first (user_last_login v) (user_last_login u)"
      using desc_nulls_first_total by blast
    with False Cons show ?thesis
      by (auto simp: set_insert_desc)
  qed
qed

lemma mset_order_by: "mset (order_by_last_login_desc us) = mset us"
  by (induction us) (simp_all add: order_by_last_login_desc_def mset_insert_desc)

lemma sorted_order_by:
  "sorted_wrt (\<lambda>a b. desc_nulls_first (user_last_login a) (user_last_login b))
     (order_by_last_login_desc us)"
proof (induction us)
  case Nil
  then show ?case by (simp add: order_by_last_login_desc_def)
next
  case (Cons u us)
  then show ?case
    using sorted_insert_desc [of "order_by_last_login_desc us" u]
    by (simp add: order_by_last_login_desc_def)
qed

lemma listing_order_rows:
  "listing_order (map listed (order_by_last_login_desc us))"
  using sorted_order_by [of us]
  by (simp add: listing_order_def sorted_wrt_map listed_def)

lemma listing_order_nulls_first:
  assumes "listing_order rs" "i < j" "j < length rs" "row_last_login (rs ! j) = None"
  shows "row_last_login (rs ! i) = None"
proof -
  from assms(1-3) have "desc_nulls_first (row_last_login (rs ! i)) (row_last_login (rs ! j))"
    by (simp add: listing_order_def sorted_wrt_iff_nth_less)
  with assms(4) show ?thesis
    by (cases "row_last_login (rs ! i)") auto
qed

lemma listing_order_desc:
  assumes "listing_order rs" "i < j" "j < length rs" "row_last_login (rs ! i) = Some x"
  shows "\<exists>y. row_last_login (rs ! j) = Some y \<and> y \<le> x"
proof -
  from assms(1-3) have "desc_nulls_first (row_last_login (rs ! i)) (row_last_login (rs ! j))"
    by (simp add: listing_order_def sorted_wrt_iff_nth_less)
  with assms(4) show ?thesis
    by (cases "row_last_login (rs ! j)") auto
qed



text \<open>
  C5, amended. Once the guard has passed, the \<^verbatim>\<open>GET /users\<close> handler answers 200 with
  the public projection of every account of the table, each exactly once, in descending
  order of \<^verbatim>\<open>last_login\<close> with the accounts that never logged in (\<^verbatim>\<open>NULL\<close>) first:
  no row with a timestamp stands before a row without one, and after a row with a
  timestamp come only rows with that timestamp or an earlier one. The table is unchanged.
\<close>

theorem users_listing_nulls_first:
  assumes "verifyUser E st now req = Inr actor"
  shows "get_users E st now req
           = (Response 200 (Users (rows_of (fst (get_users E st now req)))), st)
         \<and> mset (rows_of (fst (get_users E st now req))) = mset (map listed (users st))
         \<and> listing_order (rows_of (fst (get_users E st now req)))
         \<and> (\<forall>i j. i < j \<and> j < length (users st)
               \<and> row_last_login (rows_of (fst (get_users E st now req)) ! j) = None
              \<longrightarrow> row_last_login (rows_of (fst (get_users E st now req)) ! i) = None)
         \<and> (\<forall>i j x. i < j \<and> j < length (users st)
               \<and> row_last_login (rows_of (fst (get_users E st now req)) ! i) = Some x
              \<longrightarrow> (\<exists>y. row_last_login (rows_of (fst (get_users E st now req)) ! j) = Some y
                     \<and> y \<le> x))"
proof -
  let ?rs = "map listed (order_by_last_login_desc (users st))"
  have r: "get_users E st now req = (Response 200 (Users ?rs), st)"
    using assms by (simp add: get_users_def users_handler_def)
  then have rows: "rows_of (fst (get_users E st now req)) = ?rs"
    by (simp add: rows_of_def)
  have m: "mset ?rs = mset (map listed (users st))"
    using mset_order_by [of "users st"] by (metis mset_map)
  then have len: "length ?rs = length (users st)"
    by (metis length_map size_mset)
  have o: "listing_order ?rs" by (rule listing_order_rows)
  have n: "\<forall>i j. i < j \<and> j < length (users st) \<and> row_last_login (?rs ! j) = None
          \<longrightarrow> row_last_login (?rs ! i) = None"
    using listing_order_nulls_first [OF o] len by metis
  have d: "\<forall>i j x. i < j \<and> j < length (users st) \<and> row_last_login (?rs ! i) = Some x
          \<longrightarrow> (\<exists>y. row_last_login (?rs ! j) = Some y \<and> y \<le> x)"
    using listing_order_desc [OF o] len by metis
  have r': "get_users E st now req = (Response 200 (Users ?rs), st)"
    by (rule r)
  show ?thesis unfolding rows
    by (rule conjI [OF r' conjI [OF m conjI [OF o conjI [OF n d]]]])
qed

lemma demo_rows:
  "rows_of (fst (get_users demo_env demo_store 10 (bulk_request (demo_sign 1 0) None)))
     = [listed bob, listed carol, listed alice]"
  by (simp add: get_users_def demo_guard users_handler_def rows_of_def)
     (simp add: order_by_last_login_desc_def demo_store_def alice_def bob_def carol_def)


text \<open>
  C5 as stated asks for the accounts that never logged in to come last. On the sample
  table the listing starts with Bob, who never logged in, before Carol and Alice, who
  did.
\<close>

theorem users_listing_counterexample:
  "user_last_login bob = None \<and> user_last_login alice = Some 5
   \<and> rows_of (fst (get_users demo_env demo_store 10 (bulk_request (demo_sign 1 0) None)))
       = [listed bob, listed carol, listed alice]
   \<and> \<not> spec_listing_order
          (rows_of (fst (get_users demo_env demo_store 10 (bulk_request (demo_sign 1 0) None))))"
  by (simp add: demo_rows) (simp add: spec_listing_order_def listed_def alice_def bob_def carol_def)

theorem users_listing_nulls_first_witness:
  "get_users demo_env demo_store 10 (bulk_request (demo_sign 1 0) None)
     = (Response 200 (Users [listed bob, listed carol, listed alice]), demo_store)
   \<and> listing_order [listed bob, listed carol, listed alice]"
  using users_listing_nulls_first [OF demo_guard, of None] by (simp add: demo_rows)



section \<open>What bulk block changes\<close>

lemma mark_same_existing:
  assumes "set ids' \<inter> user_id ` set (users st) = set ids \<inter> user_id ` set (users st)"
  shows "map (\<lambda>u. if user_id u \<in> set ids' then u\<lparr>user_status := s\<rparr> else u) (users st)
      = map (\<lambda>u. if user_id u \<in> set ids then u\<lparr>user_status := s\<rparr> else u) (users st)"
proof -
  have "\<forall>u \<in> set (users st). (user_id u \<in> set ids') = (user_id u \<in> set ids)"
    using assms by blast
  then show ?thesis by (simp cong: map_cong)
qed




section \<open>Bulk unblock\<close>

lemma post_unblock_ok:
  assumes "verifyUser E st now req = Inr actor" "target_ids E (body_userIds req) = Some ids"
  shows "post_unblock E st now req =
     (Response 200 (Message ''User unblocked successfully!''),
      st\<lparr>users := map (\<lambda>u. if user_id u \<in> set ids then u\<lparr>user_status := ''active''\<rparr> else u)
                       (users st)\<rparr>)"
  using assms(1) update_status_Some [OF assms(2), of st "''active''"]
  by (simp add: post_unblock_def unblock_handler_def)

lemma guard_after_unblock:
  assumes "verifyUser E st now req = Inr actor"
  shows "\<exists>actor'. verifyUser E
            (st\<lparr>users := map (\<lambda>u. if user_id u \<in> set ids then u\<lparr>user_status := ''active''\<rparr> else u)
                             (users st)\<rparr>) now req = Inr actor'"
proof -
  obtain tok rest where t: "bearer_token req = Some tok" "tok \<noteq> []"
      "jwt_verify E tok now = Some (user_id actor)"
      "select_by_id st (user_id actor) = actor # rest" "user_status actor \<noteq> ''blocked''"
    using assms unfolding verifyUser_Inr_iff by blast
  have "select_by_id
          (st\<lparr>users := map (\<lambda>u. if user_id u \<in> set ids then u\<lparr>user_status := ''active''\<rparr> else u)
                           (users st)\<rparr>) (user_id actor)
        = map (\<lambda>u. if user_id u \<in> set ids then u\<lparr>user_status := ''active''\<rparr> else u)
            (select_by_id st (user_id actor))"
    by (simp add: select_by_id_def filter_map comp_def if_distrib [of user_id] cong: if_cong)
  with t show ?thesis
    by (simp add: verifyUser_def)
qed

text \<open>
  C8, amended. \<^verbatim>\<open>POST /unblock\<close> has no check on the actor: for every value of
  \<^verbatim>\<open>userIds\<close> that PostgreSQL reads as \<^verbatim>\<open>integer[]\<close>, with or without the actor's
  own id, it answers 200 \<^verbatim>\<open>User unblocked successfully!\<close>; a row whose id is
  targeted becomes the same row with status \<^verbatim>\<open>active\<close>, every other row is unchanged,
  and so is every row that was active already. Sending the same request again succeeds
  and leaves the table as the first call left it. Ids that no row has make no
  difference.
\<close>

theorem bulkUnblock_idempotent:
  assumes "verifyUser E st now req = Inr actor"
    and "target_ids E (body_userIds req) = Some ids"
  shows "fst (post_unblock E st now req) = Response 200 (Message ''User unblocked successfully!'')
    \<and> users_id_seq (snd (post_unblock E st now req)) = users_id_seq st
    \<and> length (users (snd (post_unblock E st now req))) = length (users st)
    \<and> (\<forall>i < length (users st).
          (user_id (users st ! i) \<in> set ids \<longrightarrow>
             users (snd (post_unblock E st now req)) ! i = (users st ! i)\<lparr>user_status := ''active''\<rparr>)
        \<and> (user_id (users st ! i) \<notin> set ids \<longrightarrow>
             users (snd (post_unblock E st now req)) ! i = users st ! i)
        \<and> (user_status (users st ! i) = ''active'' \<longrightarrow>
             users (snd (post_unblock E st now req)) ! i = users st ! i))
    \<and> post_unblock E (snd (post_unblock E st now req)) now req
        = (Response 200 (Message ''User unblocked successfully!''), snd (post_unblock E st now req))
    \<and> (verifyUser E st now req' = Inr actor' \<and> target_ids E (body_userIds req') = Some ids'
          \<and> set ids' \<inter> user_id ` set (users st) = set ids \<inter> user_id ` set (users st)
        \<longrightarrow> post_unblock E st now req' = post_unblock E st now req)"
proof -
  let ?st' = "st\<lparr>users := map (\<lambda>u. if user_id u \<in> set ids then u\<lparr>user_status := ''active''\<rparr> else u)
                       (users st)\<rparr>"
  have r: "post_unblock E st now req
      = (Response 200 (Message ''User unblocked successfully!''), ?st')"
    using assms by (rule post_unblock_ok)
  obtain again_actor where g: "verifyUser E ?st' now req = Inr again_actor"
    using guard_after_unblock [OF assms(1)] by blast
  have again: "post_unblock E ?st' now req
      = (Response 200 (Message ''User unblocked successfully!''), ?st')"
    using post_unblock_ok [OF g assms(2)] by (simp add: comp_def cong: if_cong)
  have keep: "u\<lparr>user_status := ''active''\<rparr> = u" if "user_status u = ''active''" for u :: user
    using that by (cases u) simp
  have same: "post_unblock E st now req' = post_unblock E st now req"
    if "verifyUser E st now req' = Inr actor'" "target_ids E (body_userIds req') = Some ids'"
      "set ids' \<inter> user_id ` set (users st) = set ids \<inter> user_id ` set (users st)"
    using post_unblock_ok [OF that(1,2)] mark_same_existing [OF that(3), of "''active''"] r by simp
  have m1: "fst (post_unblock E st now req) = Response 200 (Message ''User unblocked successfully!'')"
    and m2: "users_id_seq (snd (post_unblock E st now req)) = users_id_seq st"
    and m3: "length (users (snd (post_unblock E st now req))) = length (users st)"
    unfolding r by simp_all
  have m4: "\<forall>i < length (users st).
          (user_id (users st ! i) \<in> set ids \<longrightarrow>
             users (snd (post_unblock E st now req)) ! i = (users st ! i)\<lparr>user_status := ''active''\<rparr>)
        \<and> (user_id (users st ! i) \<notin> set ids \<longrightarrow>
             users (snd (post_unblock E st now req)) ! i = users st ! i)
        \<and> (user_status (users st ! i) = ''active'' \<longrightarrow>
             users (snd (post_unblock E st now req)) ! i = users st ! i)"
    unfolding r by (simp add: keep)
  have m5: "post_unblock E (snd (post_unblock E st now req)) now req
        = (Response 200 (Message ''User unblocked successfully!''), snd (post_unblock E st now req))"
    unfolding r using again by simp
  have m6: "verifyUser E st now req' = Inr actor' \<and> target_ids E (body_userIds req') = Some ids'
          \<and> set ids' \<inter> user_id ` set (users st) = set ids \<inter> user_id ` set (users st)
        \<longrightarrow> post_unblock E st now req' = post_unblock E st now req"
    using same by blast
  show ?thesis by (intro conjI) (fact m1 m2 m3 m4 m5 m6)+
qed

text \<open>
  C8 as stated does not hold of every batch: with an id that does not fit
  \<^verbatim>\<open>integer\<close> the statement fails, the answer is 500 and Carol, who was targeted and
  exists, stays blocked.
\<close>

theorem bulkUnblock_idempotent_counterexample:
  "verifyUser demo_env demo_store 10
       (bulk_request (demo_sign 1 0) (Some (JArr [JNum 3, JNum 2147483648]))) = Inr alice
   \<and> carol \<in> set (users demo_store) \<and> user_id carol = 3 \<and> user_status carol = ''blocked''
   \<and> post_unblock demo_env demo_store 10
       (bulk_request (demo_sign 1 0) (Some (JArr [JNum 3, JNum 2147483648])))
     = (Response 500 (Error ''Server error''), demo_store)"
  using demo_guard [of "Some (JArr [JNum 3, JNum 2147483648])"]
    update_status_None [OF demo_targets(8), of demo_store "''active''"]
  by (simp add: post_unblock_def unblock_handler_def body_bulk_request)
     (simp add: demo_store_def carol_def)

theorem bulkUnblock_idempotent_witness:
  "post_unblock demo_env demo_store 10 (bulk_request (demo_sign 1 0) (Some (JArr [JNum 1, JNum 3, JNum 7])))
     = (Response 200 (Message ''User unblocked successfully!''),
        \<lparr>users = [alice, bob, carol\<lparr>user_status := ''active''\<rparr>], users_id_seq = 4\<rparr>)
   \<and> post_unblock demo_env
        \<lparr>users = [alice, bob, carol\<lparr>user_status := ''active''\<rparr>], users_id_seq = 4\<rparr>
        10 (bulk_request (demo_sign 1 0) (Some (JArr [JNum 1, JNum 3, JNum 7])))
     = (Response 200 (Message ''User unblocked successfully!''),
        \<lparr>users = [alice, bob, carol\<lparr>user_status := ''active''\<rparr>], users_id_seq = 4\<rparr>)"
proof -
  let ?req = "bulk_request (demo_sign 1 0) (Some (JArr [JNum 1, JNum 3, JNum 7]))"
  have h: "target_ids demo_env (body_userIds ?req) = Some [1, 3, 7]"
    by (simp add: body_bulk_request demo_targets)
  have r: "post_unblock demo_env demo_store 10 ?req
     = (Response 200 (Message ''User unblocked successfully!''),
        \<lparr>users = [alice, bob, carol\<lparr>user_status := ''active''\<rparr>], users_id_seq = 4\<rparr>)"
    using post_unblock_ok [OF demo_guard h]
    by (simp add: demo_store_def alice_def bob_def carol_def)
  show ?thesis
    using bulkUnblock_idempotent [OF demo_guard h] by (simp add: r)
qed


section \<open>Register, then log in\<close>










section \<open>Bulk delete\<close>








section \<open>Every request keeps the table well formed\<close>

text \<open>
  The table starts empty with the sequence at 1, and no handler leaves \<open>wf_store\<close>; this
  is what the theorems above assume of the table.
\<close>

lemma wf_store_mark:
  "wf_store st \<Longrightarrow>
   wf_store (st\<lparr>users := map (\<lambda>u. if user_id u \<in> set ids then u\<lparr>user_status := s\<rparr> else u)
                            (users st)\<rparr>)"
proof -
  have c: "user_id \<circ> (\<lambda>u. if user_id u \<in> set ids then u\<lparr>user_status := s\<rparr> else u) = user_id"
    "user_email \<circ> (\<lambda>u. if user_id u \<in> set ids then u\<lparr>user_status := s\<rparr> else u)
      = user_email"
    by (auto simp: fun_eq_iff)
  show "wf_store st \<Longrightarrow>
    wf_store (st\<lparr>users := map (\<lambda>u. if user_id u \<in> set ids then u\<lparr>user_status := s\<rparr> else u)
                             (users st)\<rparr>)"
    by (auto simp: wf_store_def c)
qed

lemma wf_store_update_status:
  "wf_store st \<Longrightarrow> update_status E st s v = Some st' \<Longrightarrow> wf_store st'"
  by (auto simp: update_status_def wf_store_mark split: option.splits)

lemma wf_store_update_last_login: "wf_store st \<Longrightarrow> wf_store (update_last_login st i now)"
proof -
  have c: "user_id \<circ> (\<lambda>u. if user_id u = i then u\<lparr>user_last_login := Some now\<rparr> else u) = user_id"
    "user_email \<circ> (\<lambda>u. if user_id u = i then u\<lparr>user_last_login := Some now\<rparr> else u)
      = user_email"
    by (auto simp: fun_eq_iff)
  show "wf_store st \<Longrightarrow> wf_store (update_last_login st i now)"
    by (auto simp: wf_store_def update_last_login_def c)
qed

lemma wf_store_delete_users:
  "wf_store st \<Longrightarrow> delete_users E st v = Some st' \<Longrightarrow> wf_store st'"
  by (auto simp: wf_store_def delete_users_def distinct_map_filter split: option.splits)

lemma varchar_Some:
  "varchar n s = Some s' \<Longrightarrow>
   length s' \<le> n \<and> (s \<noteq> [] \<and> 0 < n \<longrightarrow> s' \<noteq> []) \<and> (nul_free s \<longrightarrow> nul_free s')"
  by (auto simp: varchar_def nul_free_def split: if_splits dest: in_set_takeD)

lemma wf_store_insert_user:
  assumes "wf_store st" "e \<noteq> []"
  shows "wf_store (snd (insert_user st n e p))"
proof (cases "nul_free n \<and> nul_free e \<and> nul_free p")
  case False
  with assms(1) show ?thesis by (auto simp: insert_user_def)
next
  case nf: True
  show ?thesis
  proof (cases "varchar 255 n")
    case None
    with nf assms(1) show ?thesis by (auto simp: insert_user_def)
  next
    case n': (Some n')
    show ?thesis
    proof (cases "varchar 255 e")
      case None
      with nf n' assms(1) show ?thesis by (auto simp: insert_user_def)
    next
      case e': (Some e')
      then have e'ok: "length e' \<le> 255" "e' \<noteq> []" "nul_free e'"
        using varchar_Some [OF e'] assms(2) nf by auto
      show ?thesis
      proof (cases "varchar 255 p")
        case None
        with nf n' e' assms(1) show ?thesis by (auto simp: insert_user_def)
      next
        case (Some p')
        with nf n' e' e'ok assms(1) show ?thesis
          by (auto simp: insert_user_def wf_store_def Let_def)
      qed
    qed
  qed
qed

lemma wf_store_initial: "wf_store \<lparr>users = [], users_id_seq = 1\<rparr>"
  by (simp add: wf_store_def)

lemma wf_store_post_register: "wf_store st \<Longrightarrow> wf_store (snd (post_register E st salt req))"
proof -
  assume wf: "wf_store st"
  show ?thesis
  proof (cases "\<exists>name email password. body_name req = Some name \<and> body_email req = Some email
      \<and> body_password req = Some password \<and> name \<noteq> [] \<and> email \<noteq> [] \<and> password \<noteq> []")
    case True
    then obtain name email password where b: "body_name req = Some name"
      "body_email req = Some email" "body_password req = Some password"
      "name \<noteq> []" "email \<noteq> []" "password \<noteq> []"
      by blast
    obtain r st' where i: "insert_user st name email (bcrypt_hash E password salt) = (r, st')"
      by (cases "insert_user st name email (bcrypt_hash E password salt)") auto
    then have "wf_store st'"
      using wf_store_insert_user [OF wf b(5), of name "bcrypt_hash E password salt"] by simp
    moreover have "snd (post_register E st salt req) = st'"
      using b i by (simp add: post_register_def split: sum.splits pg_error.splits)
    ultimately show ?thesis by simp
  next
    case False
    then have "snd (post_register E st salt req) = st"
      by (auto simp: post_register_def split: option.splits)
    with wf show ?thesis by simp
  qed
qed

lemma wf_store_post_login: "wf_store st \<Longrightarrow> wf_store (snd (post_login E st now req))"
  by (auto simp: post_login_def wf_store_update_last_login split: list.splits option.splits)

lemma wf_store_post_block: "wf_store st \<Longrightarrow> wf_store (snd (post_block E st now req))"
  by (auto simp: post_block_def block_handler_def
           split: sum.splits option.splits bool.splits dest: wf_store_update_status)

lemma wf_store_post_unblock: "wf_store st \<Longrightarrow> wf_store (snd (post_unblock E st now req))"
  by (auto simp: post_unblock_def unblock_handler_def
           split: sum.splits option.splits dest: wf_store_update_status)

lemma wf_store_post_delete: "wf_store st \<Longrightarrow> wf_store (snd (post_delete E st now req))"
  by (auto simp: post_delete_def delete_handler_def
           split: sum.splits option.splits bool.splits dest: wf_store_delete_users)

section \<open>Which route answers\<close>

text \<open>
  In \<^verbatim>\<open>index.js\<close> the first \<^verbatim>\<open>app.get('*', ...)\<close> stands before
  \<^verbatim>\<open>app.get('/users', ...)\<close>, so a \<^verbatim>\<open>GET /users\<close> that is not a static file is
  answered with \<^verbatim>\<open>index.html\<close>; the \<^verbatim>\<open>POST\<close> routes are reached. The theorems on
  the listing above are about the handler.
\<close>

lemma get_users_route_shadowed: "dispatch routes GET ''/users'' = Some SendIndexHtml"
  by (simp add: routes_def)

lemma post_routes_reached:
  "dispatch routes POST ''/block'' = Some BlockRoute"
  "dispatch routes POST ''/unblock'' = Some UnblockRoute"
  "dispatch routes POST ''/delete'' = Some DeleteRoute"
  "dispatch routes POST ''/register'' = Some RegisterRoute"
  "dispatch routes POST ''/login'' = Some LoginRoute"
  by (simp_all add: routes_def)

end
